theory Spec2Isabelle
  imports Main "HOL-Library.Word"
begin

section \<open>The camera platform of the Pik intercom integration\<close>

text \<open>
  A shallow embedding of \<^verbatim>\<open>custom_components/pik_intercom/camera.py\<close>.
  The entity \<^verbatim>\<open>PikIntercomCamera\<close> is a record; a call of one of its methods takes
  the entity and returns the entity as the call leaves it. Everything the methods await
  (the device's snapshot operation, the API object's refresh, the ffmpeg helper) is an
  input of the call: the answer that operation gives when it is awaited. An exception is
  a value of \<open>exn\<close>, and a call that raises returns \<open>Inl\<close> of it. What a
  call does besides returning (log records, awaited operations, assignments to the failure
  counter) is listed in order in a trace.
\<close>

subsection \<open>Values\<close>

type_synonym bytes = "8 word list"

datatype exn =
    PikIntercomException string
  | KeyError string
  | OtherException string

text \<open>Truthiness of an \<^verbatim>\<open>Optional[str]\<close>: \<^verbatim>\<open>None\<close> and \<^verbatim>\<open>""\<close> are false.\<close>

fun truthy :: "string option \<Rightarrow> bool" where
  "truthy None = False"
| "truthy (Some s) = (s \<noteq> [])"

subsection \<open>The multi-valued mapping of stream qualities\<close>

text \<open>
  \<^verbatim>\<open>intercom_device.video\<close> is a \<^verbatim>\<open>multidict.MultiDict\<close>: an ordered list of
  (key, value) items in which a key may occur several times. Its \<^verbatim>\<open>keys()\<close> view
  yields the key of every item in item order, so a key with several values is yielded
  once per value; \<^verbatim>\<open>getall(key)\<close> returns the values of all items with that key in
  item order, and raises \<^verbatim>\<open>KeyError\<close> when there is none.
\<close>

type_synonym ('k, 'v) MultiDict = "('k \<times> 'v) list"

definition keys :: "('k, 'v) MultiDict \<Rightarrow> 'k list" where
  "keys md = map fst md"

definition getall :: "(string, 'v) MultiDict \<Rightarrow> string \<Rightarrow> exn + 'v list" where
  "getall md key =
     (case map snd (filter (\<lambda>item. fst item = key) md) of
        [] \<Rightarrow> Inl (KeyError key)
      | v # vs \<Rightarrow> Inr (v # vs))"

subsection \<open>The device, the host and the entity\<close>

record PikIntercomDevice =
  device_id :: int
  property_id :: int
  photo_url :: "string option"
  stream_url :: "string option"
  video :: "(string, string) MultiDict option"
  face_detection :: bool

text \<open>
  The key under which the threshold is configured. \<^verbatim>\<open>const.py\<close> defines it; no
  result below depends on its value.
\<close>

definition CONF_RETRIEVAL_ERROR_THRESHOLD :: string where
  "CONF_RETRIEVAL_ERROR_THRESHOLD = ''retrieval_error_threshold''"

text \<open>
  \<^verbatim>\<open>hass.data[DATA_FINAL_CONFIG]\<close>: absent, or a dictionary from config entry ids to
  the final configuration of that entry.
\<close>

record HomeAssistant =
  final_config :: "(string \<rightharpoonup> (string \<rightharpoonup> int)) option"

record PikIntercomCamera =
  config_entry_id :: string
  intercom_device :: PikIntercomDevice
  entity_id :: string
  failed_retrieval_counter :: int

subsection \<open>Construction\<close>

fun digits :: "nat \<Rightarrow> string" where
  "digits n =
     (if n < 10 then [char_of (48 + n)]
      else digits (n div 10) @ [char_of (48 + n mod 10)])"

definition str :: "int \<Rightarrow> string" where
  "str i = (if i < 0 then CHR ''-'' # digits (nat (- i)) else digits (nat i))"

definition init :: "string \<Rightarrow> PikIntercomDevice \<Rightarrow> PikIntercomCamera" where
  "init entry_id device =
     \<lparr> config_entry_id = entry_id,
       intercom_device = device,
       entity_id = ''switch.'' @ str (device_id device) @ ''_camera'',
       failed_retrieval_counter = 0 \<rparr>"

subsection \<open>The threshold\<close>

definition retrieval_error_threshold :: "HomeAssistant \<Rightarrow> PikIntercomCamera \<Rightarrow> exn + int" where
  "retrieval_error_threshold hass self =
     (case final_config hass of
        None \<Rightarrow> Inl (KeyError ''DATA_FINAL_CONFIG'')
      | Some configs \<Rightarrow>
          (case configs (config_entry_id self) of
             None \<Rightarrow> Inl (KeyError (config_entry_id self))
           | Some config \<Rightarrow>
               (case config CONF_RETRIEVAL_ERROR_THRESHOLD of
                  None \<Rightarrow> Inl (KeyError CONF_RETRIEVAL_ERROR_THRESHOLD)
                | Some configured \<Rightarrow> Inr (max configured 5))))"

subsection \<open>State attributes\<close>

record stream_entry =
  quality :: string
  source :: string

record state_attributes =
  attr_photo_url :: "string option"
  attr_stream_url :: "string option"
  all_stream_urls :: "stream_entry list"
  attr_face_detection :: bool

text \<open>
  The nested comprehension
  \<^verbatim>\<open>[{...} for key in (streams.keys() if streams else ()) for value in streams.getall(key)]\<close>:
  the outer loop runs over the keys, the inner one over what \<^verbatim>\<open>getall\<close> returns for
  the key; an exception of \<^verbatim>\<open>getall\<close> ends the comprehension.
\<close>

fun stream_entries :: "(string, string) MultiDict \<Rightarrow> string list \<Rightarrow> exn + stream_entry list" where
  "stream_entries intercom_streams [] = Inr []"
| "stream_entries intercom_streams (key # rest) =
     (case getall intercom_streams key of
        Inl e \<Rightarrow> Inl e
      | Inr values \<Rightarrow>
          (case stream_entries intercom_streams rest of
             Inl e \<Rightarrow> Inl e
           | Inr entries \<Rightarrow>
               Inr (map (\<lambda>value. \<lparr> quality = key, source = value \<rparr>) values @ entries)))"

definition device_state_attributes :: "PikIntercomCamera \<Rightarrow> exn + state_attributes" where
  "device_state_attributes self =
     (let device = intercom_device self;
          intercom_streams = video device
      in case (case intercom_streams of
                 None \<Rightarrow> Inr []
               | Some [] \<Rightarrow> Inr []
               | Some streams \<Rightarrow> stream_entries streams (keys streams)) of
           Inl e \<Rightarrow> Inl e
         | Inr entries \<Rightarrow>
             Inr \<lparr> attr_photo_url = photo_url device,
                   attr_stream_url = stream_url device,
                   all_stream_urls = entries,
                   attr_face_detection = face_detection device \<rparr>)"

subsection \<open>Fetching an image\<close>

datatype log_level = DEBUG | WARNING | ERROR

datatype log_message =
    Fetching_snapshot_from_video_feed
  | Video_source_did_not_provide_any_image
  | Retrieved_snapshot_from_video_feed
  | No_video_source_available
  | Error_count int int exn
  | Retrieval_error_threshold_reached int

datatype event =
    Log log_level string log_message
  | Await_ffmpeg_get_image string "int option" "int option"
  | Await_get_snapshot
  | Await_update_property_intercoms int
  | Set_failed_retrieval_counter int

text \<open>The answers of the operations a call awaits.\<close>

record externals =
  async_get_snapshot :: "exn + bytes"
  async_update_property_intercoms :: "int \<Rightarrow> exn + unit"
  ffmpeg_async_get_image :: "string \<Rightarrow> int option \<Rightarrow> int option \<Rightarrow> exn + bytes option"

type_synonym image_result = "(exn + bytes option) \<times> PikIntercomCamera \<times> event list"

definition async_camera_image ::
  "HomeAssistant \<Rightarrow> externals \<Rightarrow> PikIntercomCamera \<Rightarrow> int option \<Rightarrow> int option \<Rightarrow> image_result" where
  "async_camera_image hass ext self width height =
     (let device = intercom_device self in
      if \<not> truthy (photo_url device) then
        (case stream_url device of
           Some (c # cs) \<Rightarrow>
             (let url = c # cs;
                  t1 = [Log DEBUG (entity_id self) Fetching_snapshot_from_video_feed,
                        Await_ffmpeg_get_image url width height]
              in case ffmpeg_async_get_image ext url width height of
                   Inl e \<Rightarrow> (Inl e, self, t1)
                 | Inr None \<Rightarrow>
                     (Inr None, self,
                      t1 @ [Log WARNING (entity_id self) Video_source_did_not_provide_any_image])
                 | Inr (Some snapshot_image) \<Rightarrow>
                     (Inr (Some snapshot_image), self,
                      t1 @ [Log DEBUG (entity_id self) Retrieved_snapshot_from_video_feed]))
         | _ \<Rightarrow> (Inr None, self, [Log WARNING (entity_id self) No_video_source_available]))
      else
        (case async_get_snapshot ext of
           Inr snapshot_image \<Rightarrow>
             (Inr (Some snapshot_image), self\<lparr>failed_retrieval_counter := 0\<rparr>,
              [Await_get_snapshot, Set_failed_retrieval_counter 0])
         | Inl (PikIntercomException msg) \<Rightarrow>
             (let self1 = self\<lparr>failed_retrieval_counter := failed_retrieval_counter self + 1\<rparr>;
                  counter = failed_retrieval_counter self1;
                  t1 = [Await_get_snapshot, Set_failed_retrieval_counter counter]
              in case retrieval_error_threshold hass self1 of
                   Inl e \<Rightarrow> (Inl e, self1, t1)
                 | Inr threshold \<Rightarrow>
                     if counter < threshold then
                       (Inr None, self1,
                        t1 @ [Log ERROR (entity_id self)
                                (Error_count counter threshold (PikIntercomException msg))])
                     else
                       (let self2 = self1\<lparr>failed_retrieval_counter := 0\<rparr>;
                            t2 = t1 @ [Set_failed_retrieval_counter 0,
                                       Log ERROR (entity_id self)
                                         (Retrieval_error_threshold_reached threshold),
                                       Await_update_property_intercoms (property_id device)]
                        in case async_update_property_intercoms ext (property_id device) of
                             Inl e \<Rightarrow> (Inl e, self2, t2)
                           | Inr _ \<Rightarrow> (Inr None, self2, t2)))
         | Inl e \<Rightarrow> (Inl e, self, [Await_get_snapshot])))"

text \<open>
  \<^verbatim>\<open>camera_image\<close> schedules \<^verbatim>\<open>async_camera_image\<close> on the event loop and waits for
  its result.
\<close>

definition camera_image ::
  "HomeAssistant \<Rightarrow> externals \<Rightarrow> PikIntercomCamera \<Rightarrow> int option \<Rightarrow> int option \<Rightarrow> image_result" where
  "camera_image hass ext self width height = async_camera_image hass ext self width height"

subsection \<open>Sequences of calls on one entity\<close>

text \<open>
  What one call finds when it starts: the host's data, the answers of the operations it
  may await, the device as the API object holds it at that moment (the API object owns the
  device and changes it between calls), and the arguments.
\<close>

record image_call =
  call_hass :: HomeAssistant
  call_ext :: externals
  call_device :: PikIntercomDevice
  call_width :: "int option"
  call_height :: "int option"

definition image_step :: "PikIntercomCamera \<Rightarrow> image_call \<Rightarrow> image_result" where
  "image_step self c =
     async_camera_image (call_hass c) (call_ext c)
       (self\<lparr>intercom_device := call_device c\<rparr>) (call_width c) (call_height c)"

subsection \<open>Reading a result\<close>

definition outcome :: "image_result \<Rightarrow> exn + bytes option" where
  "outcome r = fst r"

definition camera_after :: "image_result \<Rightarrow> PikIntercomCamera" where
  "camera_after r = fst (snd r)"

definition trace :: "image_result \<Rightarrow> event list" where
  "trace r = snd (snd r)"

text \<open>The operations a call awaited, in order: the trace without log records and assignments.\<close>

fun is_await :: "event \<Rightarrow> bool" where
  "is_await (Log _ _ _) = False"
| "is_await (Set_failed_retrieval_counter _) = False"
| "is_await _ = True"

definition awaited :: "event list \<Rightarrow> event list" where
  "awaited tr = filter is_await tr"

text \<open>The operations of the API object (the device's snapshot fetch and the refresh).\<close>

fun is_api_call :: "event \<Rightarrow> bool" where
  "is_api_call Await_get_snapshot = True"
| "is_api_call (Await_update_property_intercoms _) = True"
| "is_api_call _ = False"

fun refresh_calls :: "event list \<Rightarrow> int list" where
  "refresh_calls [] = []"
| "refresh_calls (Await_update_property_intercoms p # tr) = p # refresh_calls tr"
| "refresh_calls (_ # tr) = refresh_calls tr"

fun warnings :: "event list \<Rightarrow> log_message list" where
  "warnings [] = []"
| "warnings (Log WARNING _ m # tr) = m # warnings tr"
| "warnings (_ # tr) = warnings tr"

text \<open>\<open>precedes a b tr\<close>: \<open>a\<close> occurs in \<open>tr\<close>, and \<open>b\<close> occurs after its first occurrence.\<close>

definition precedes :: "event \<Rightarrow> event \<Rightarrow> event list \<Rightarrow> bool" where
  "precedes a b tr = (b \<in> set (dropWhile (\<lambda>e. e \<noteq> a) tr))"

fun is_PikIntercomException :: "exn + 'a \<Rightarrow> bool" where
  "is_PikIntercomException (Inl (PikIntercomException _)) = True"
| "is_PikIntercomException _ = False"

text \<open>
  The entities a sequence of calls goes through (the one it starts from, then the one each
  call leaves) and the results of the calls. An exception that a call raises goes to its
  caller; the entity stays, and the next call starts from it.
\<close>

fun cameras :: "PikIntercomCamera \<Rightarrow> image_call list \<Rightarrow> PikIntercomCamera list" where
  "cameras self [] = [self]"
| "cameras self (c # cs) = self # cameras (camera_after (image_step self c)) cs"

fun image_calls :: "PikIntercomCamera \<Rightarrow> image_call list \<Rightarrow> image_result list" where
  "image_calls self [] = []"
| "image_calls self (c # cs) =
     image_step self c # image_calls (camera_after (image_step self c)) cs"

subsection \<open>Kinds of call\<close>

text \<open>
  What a call meets, read from what it finds when it starts: the snapshot operation returns
  (a successful fetch); it raises \<^verbatim>\<open>PikIntercomException\<close> and the incremented counter
  stays below the threshold, or the threshold cannot be read (a failed fetch); it raises
  \<^verbatim>\<open>PikIntercomException\<close> and the incremented counter is not below the threshold (a
  threshold trip); it raises another exception; or the device has no photo URL and the
  snapshot operation is not asked.
\<close>

datatype fetch_kind =
    Successful_fetch
  | Failed_fetch
  | Threshold_trip
  | Other_exception
  | No_snapshot_request

definition fetch_kind :: "PikIntercomCamera \<Rightarrow> image_call \<Rightarrow> fetch_kind" where
  "fetch_kind self c =
     (if \<not> truthy (photo_url (call_device c)) then No_snapshot_request
      else case async_get_snapshot (call_ext c) of
             Inr _ \<Rightarrow> Successful_fetch
           | Inl (PikIntercomException _) \<Rightarrow>
               (case retrieval_error_threshold (call_hass c) self of
                  Inl _ \<Rightarrow> Failed_fetch
                | Inr t \<Rightarrow>
                    if failed_retrieval_counter self + 1 < t then Failed_fetch else Threshold_trip)
           | Inl _ \<Rightarrow> Other_exception)"

fun resets :: "fetch_kind \<Rightarrow> bool" where
  "resets Successful_fetch = True"
| "resets Threshold_trip = True"
| "resets _ = False"

text \<open>The values a multi-valued mapping holds under a key, in item order.\<close>

definition values_of :: "('k, 'v) MultiDict \<Rightarrow> 'k \<Rightarrow> 'v list" where
  "values_of md key = map snd (filter (\<lambda>item. fst item = key) md)"

subsection \<open>Example inputs\<close>

definition example_device :: PikIntercomDevice where
  "example_device =
     \<lparr> device_id = 42, property_id = 7,
       photo_url = Some ''https://intercom.example/photo.jpg'',
       stream_url = Some ''rtsp://intercom.example/high'',
       video = Some [(''high'', ''rtsp://intercom.example/high''),
                     (''low'', ''rtsp://intercom.example/low'')],
       face_detection = False \<rparr>"

text \<open>An entity for \<open>example_device\<close> whose failure counter stands at \<open>n\<close>.\<close>

definition example_camera :: "int \<Rightarrow> PikIntercomCamera" where
  "example_camera n = (init ''entry'' example_device)\<lparr>failed_retrieval_counter := n\<rparr>"

text \<open>A host whose configuration for the entry sets the threshold to \<open>configured\<close>.\<close>

definition example_hass :: "int \<Rightarrow> HomeAssistant" where
  "example_hass configured =
     \<lparr> final_config =
         Some [''entry'' \<mapsto> [CONF_RETRIEVAL_ERROR_THRESHOLD \<mapsto> configured]] \<rparr>"

definition example_image :: bytes where
  "example_image = [255, 216, 255]"

text \<open>The snapshot operation raises; the refresh answers \<open>refresh\<close>.\<close>

definition snapshot_raises :: "exn + unit \<Rightarrow> externals" where
  "snapshot_raises refresh =
     \<lparr> async_get_snapshot = Inl (PikIntercomException ''timeout''),
       async_update_property_intercoms = (\<lambda>_. refresh),
       ffmpeg_async_get_image = (\<lambda>_ _ _. Inr None) \<rparr>"

definition snapshot_returns :: externals where
  "snapshot_returns =
     \<lparr> async_get_snapshot = Inr example_image,
       async_update_property_intercoms = (\<lambda>_. Inr ()),
       ffmpeg_async_get_image = (\<lambda>_ _ _. Inr (Some example_image)) \<rparr>"

definition failing_call :: image_call where
  "failing_call =
     \<lparr> call_hass = example_hass 5, call_ext = snapshot_raises (Inr ()),
       call_device = example_device, call_width = None, call_height = None \<rparr>"

definition succeeding_call :: image_call where
  "succeeding_call =
     \<lparr> call_hass = example_hass 5, call_ext = snapshot_returns,
       call_device = example_device, call_width = None, call_height = None \<rparr>"

text \<open>A device with two stream sources of the same quality.\<close>

definition two_sources_device :: PikIntercomDevice where
  "two_sources_device =
     example_device\<lparr>video := Some [(''high'', ''rtsp://intercom.example/a''),
                                    (''high'', ''rtsp://intercom.example/b'')]\<rparr>"

section \<open>Properties\<close>

subsection \<open>Auxiliary facts\<close>

lemmas result_defs = outcome_def camera_after_def trace_def

lemmas example_defs =
  example_device_def example_camera_def example_hass_def example_image_def
  snapshot_raises_def snapshot_returns_def failing_call_def succeeding_call_def init_def

lemma threshold_floor:
  "retrieval_error_threshold hass self = Inr t \<Longrightarrow> 5 \<le> t"
  by (auto simp: retrieval_error_threshold_def split: option.splits)

lemma threshold_config_entry:
  "config_entry_id a = config_entry_id b \<Longrightarrow>
   retrieval_error_threshold hass a = retrieval_error_threshold hass b"
  by (simp add: retrieval_error_threshold_def split: option.splits)

lemma threshold_counter_update [simp]:
  "retrieval_error_threshold hass (self\<lparr>failed_retrieval_counter := n\<rparr>) =
   retrieval_error_threshold hass self"
  by (rule threshold_config_entry) simp

lemma threshold_device_update [simp]:
  "retrieval_error_threshold hass (self\<lparr>intercom_device := d\<rparr>) =
   retrieval_error_threshold hass self"
  by (rule threshold_config_entry) simp

lemma length_cameras [simp]: "length (cameras self cs) = Suc (length cs)"
  by (induction cs arbitrary: self) simp_all

lemma length_image_calls [simp]: "length (image_calls self cs) = length cs"
  by (induction cs arbitrary: self) simp_all

lemma cameras_Suc:
  "i < length cs \<Longrightarrow>
   cameras self cs ! Suc i = camera_after (image_step (cameras self cs ! i) (cs ! i))"
proof (induction cs arbitrary: self i)
  case Nil
  then show ?case by simp
next
  case (Cons c cs)
  show ?case
  proof (cases i)
    case 0
    then show ?thesis by (cases cs) simp_all
  next
    case (Suc j)
    with Cons.prems have "j < length cs" by simp
    from Cons.IH [OF this] Suc show ?thesis by simp
  qed
qed

lemma last_cameras: "last (cameras self cs) = cameras self cs ! length cs"
proof -
  have "cameras self cs \<noteq> []" by (cases cs) simp_all
  then show ?thesis by (simp add: last_conv_nth)
qed

lemma step_counter:
  "failed_retrieval_counter (camera_after (image_step self c)) =
     (case fetch_kind self c of
        Successful_fetch \<Rightarrow> 0
      | Threshold_trip \<Rightarrow> 0
      | Failed_fetch \<Rightarrow> failed_retrieval_counter self + 1
      | Other_exception \<Rightarrow> failed_retrieval_counter self
      | No_snapshot_request \<Rightarrow> failed_retrieval_counter self)"
  by (auto simp: image_step_def async_camera_image_def fetch_kind_def result_defs Let_def
           split: sum.splits exn.splits option.splits list.splits)

lemma step_config_entry [simp]:
  "config_entry_id (camera_after (image_step self c)) = config_entry_id self"
  by (auto simp: image_step_def async_camera_image_def result_defs Let_def
           split: sum.splits exn.splits option.splits list.splits)

lemma step_counter_mono:
  "\<not> resets (fetch_kind self c) \<Longrightarrow>
   failed_retrieval_counter self \<le> failed_retrieval_counter (camera_after (image_step self c))"
  by (cases "fetch_kind self c") (simp_all add: step_counter)

lemma run_counter_mono:
  assumes "j \<le> length cs"
    and "\<forall>l. i \<le> l \<and> l < j \<longrightarrow> \<not> resets (fetch_kind (cameras self cs ! l) (cs ! l))"
    and "i \<le> j"
  shows "failed_retrieval_counter (cameras self cs ! i) \<le> failed_retrieval_counter (cameras self cs ! j)"
  using assms
proof (induction j)
  case 0
  then show ?case by simp
next
  case (Suc j)
  show ?case
  proof (cases "i = Suc j")
    case True
    then show ?thesis by simp
  next
    case False
    with Suc.prems have ij: "i \<le> j" and j: "j < length cs" by simp_all
    have "failed_retrieval_counter (cameras self cs ! i) \<le> failed_retrieval_counter (cameras self cs ! j)"
      using Suc.IH Suc.prems ij j by simp
    also have "\<dots> \<le> failed_retrieval_counter (cameras self cs ! Suc j)"
      using Suc.prems(2) ij step_counter_mono [of "cameras self cs ! j" "cs ! j"]
      by (simp add: cameras_Suc [OF j])
    finally show ?thesis .
  qed
qed

lemma failed_step:
  assumes "truthy (photo_url (call_device c))"
    and "is_PikIntercomException (async_get_snapshot (call_ext c))"
    and "retrieval_error_threshold (call_hass c) self = Inr t"
    and "failed_retrieval_counter self + 1 < t"
  shows "outcome (image_step self c) = Inr None"
    and "failed_retrieval_counter (camera_after (image_step self c)) = failed_retrieval_counter self + 1"
  using assms
  by (auto simp: image_step_def async_camera_image_def result_defs Let_def
           split: sum.splits exn.splits)

lemma failures_below_threshold:
  assumes "\<forall>c\<in>set cs. truthy (photo_url (call_device c))
                   \<and> is_PikIntercomException (async_get_snapshot (call_ext c))
                   \<and> retrieval_error_threshold (call_hass c) self = Inr t"
    and "failed_retrieval_counter self + int (length cs) < t"
  shows "(\<forall>r\<in>set (image_calls self cs). outcome r = Inr None)
       \<and> (\<forall>i\<le>length cs. failed_retrieval_counter (cameras self cs ! i) = failed_retrieval_counter self + int i)"
  using assms
proof (induction cs arbitrary: self)
  case Nil
  then show ?case by simp
next
  case (Cons c cs)
  let ?self' = "camera_after (image_step self c)"
  have c: "truthy (photo_url (call_device c))"
    "is_PikIntercomException (async_get_snapshot (call_ext c))"
    "retrieval_error_threshold (call_hass c) self = Inr t"
    using Cons.prems(1) by simp_all
  have lt: "failed_retrieval_counter self + 1 < t"
    using Cons.prems(2) by simp
  note step = failed_step [OF c lt]
  have "\<forall>d\<in>set cs. truthy (photo_url (call_device d))
                   \<and> is_PikIntercomException (async_get_snapshot (call_ext d))
                   \<and> retrieval_error_threshold (call_hass d) ?self' = Inr t"
    using Cons.prems(1) threshold_config_entry [OF step_config_entry [of self c]] by simp
  moreover have "failed_retrieval_counter ?self' + int (length cs) < t"
    using Cons.prems(2) step(2) by simp
  ultimately have IH:
    "(\<forall>r\<in>set (image_calls ?self' cs). outcome r = Inr None)
     \<and> (\<forall>i\<le>length cs. failed_retrieval_counter (cameras ?self' cs ! i) = failed_retrieval_counter ?self' + int i)"
    by (rule Cons.IH)
  have "\<forall>i\<le>length (c # cs). failed_retrieval_counter (cameras self (c # cs) ! i) = failed_retrieval_counter self + int i"
  proof (intro allI impI)
    fix i assume "i \<le> length (c # cs)"
    then show "failed_retrieval_counter (cameras self (c # cs) ! i) = failed_retrieval_counter self + int i"
      using IH step(2) by (cases i) simp_all
  qed
  then show ?case using IH step(1) by simp
qed

lemma getall_key:
  "key \<in> set (keys md) \<Longrightarrow> getall md key = Inr (values_of md key)"
proof -
  assume "key \<in> set (keys md)"
  then obtain v where "(key, v) \<in> set md" by (auto simp: keys_def)
  then have "filter (\<lambda>item. fst item = key) md \<noteq> []"
    by (force simp: filter_empty_conv)
  then show ?thesis
    by (simp add: getall_def values_of_def split: list.splits)
qed

lemma stream_entries_keys:
  "set ks \<subseteq> set (keys md) \<Longrightarrow>
   stream_entries md ks =
     Inr (concat (map (\<lambda>key. map (\<lambda>value. \<lparr>quality = key, source = value\<rparr>) (values_of md key)) ks))"
  by (induction ks) (simp_all add: getall_key)

lemma values_of_distinct:
  "distinct (keys md) \<Longrightarrow> (key, v) \<in> set md \<Longrightarrow> values_of md key = [v]"
proof (induction md)
  case Nil
  then show ?case by simp
next
  case (Cons item md)
  show ?case
  proof (cases "item = (key, v)")
    case True
    with Cons.prems(1) have "filter (\<lambda>item. fst item = key) md = []"
      by (auto simp: keys_def filter_empty_conv image_iff)
    with True show ?thesis by (simp add: values_of_def)
  next
    case False
    with Cons.prems have mem: "(key, v) \<in> set md" by simp
    with Cons.prems(1) have "fst item \<noteq> key"
      by (auto simp: keys_def image_iff)
    moreover from Cons.prems(1) have "distinct (keys md)" by (simp add: keys_def)
    ultimately show ?thesis using Cons.IH mem by (simp add: values_of_def)
  qed
qed

lemma stream_entries_distinct:
  assumes "distinct (keys md)"
  shows "stream_entries md (keys md) = Inr (map (\<lambda>(key, value). \<lparr>quality = key, source = value\<rparr>) md)"
proof -
  have "concat (map (\<lambda>key. map (\<lambda>value. \<lparr>quality = key, source = value\<rparr>) (values_of md key)) (keys md))
      = concat (map (\<lambda>item. [\<lparr>quality = fst item, source = snd item\<rparr>]) md)"
    unfolding keys_def map_map comp_def
    by (rule arg_cong [where f = concat], rule map_cong [OF refl])
       (use assms in \<open>auto simp: values_of_distinct\<close>)
  also have "\<dots> = map (\<lambda>(key, value). \<lparr>quality = key, source = value\<rparr>) md"
    by (induction md) auto
  finally show ?thesis by (simp add: stream_entries_keys)
qed

subsection \<open>Single calls with a photo URL\<close>

text \<open>
  C1. The device has a photo URL, the snapshot operation raises
  \<^verbatim>\<open>PikIntercomException\<close>, and the counter after the increment equals the threshold.
  Then the call leaves the counter at 0 and awaits the refresh exactly once, with the
  device's property id; it returns \<^verbatim>\<open>None\<close> when the refresh returns.
\<close>

theorem threshold_trip_refreshes:
  assumes "truthy (photo_url (intercom_device self))"
    and "async_get_snapshot ext = Inl (PikIntercomException msg)"
    and "retrieval_error_threshold hass self = Inr t"
    and "failed_retrieval_counter self + 1 = t"
  shows "failed_retrieval_counter (camera_after (async_camera_image hass ext self w h)) = 0
       \<and> refresh_calls (trace (async_camera_image hass ext self w h)) =
           [property_id (intercom_device self)]
       \<and> (async_update_property_intercoms ext (property_id (intercom_device self)) = Inr ()
            \<longrightarrow> outcome (async_camera_image hass ext self w h) = Inr None)"
  using assms by (simp add: async_camera_image_def result_defs Let_def split: sum.splits)

theorem threshold_trip_refreshes_witness:
  "truthy (photo_url (intercom_device (example_camera 4)))
   \<and> async_get_snapshot (snapshot_raises (Inr ())) = Inl (PikIntercomException ''timeout'')
   \<and> retrieval_error_threshold (example_hass 3) (example_camera 4) = Inr 5
   \<and> failed_retrieval_counter (example_camera 4) + 1 = 5
   \<and> failed_retrieval_counter
       (camera_after (async_camera_image (example_hass 3) (snapshot_raises (Inr ()))
          (example_camera 4) None None)) = 0
   \<and> refresh_calls
       (trace (async_camera_image (example_hass 3) (snapshot_raises (Inr ()))
          (example_camera 4) None None)) = [7]
   \<and> outcome (async_camera_image (example_hass 3) (snapshot_raises (Inr ()))
        (example_camera 4) None None) = Inr None"
  using threshold_trip_refreshes
    [where self = "example_camera 4" and ext = "snapshot_raises (Inr ())"
       and msg = "''timeout''" and hass = "example_hass 3" and t = 5
       and w = None and h = None]
  by (simp add: example_defs retrieval_error_threshold_def)

text \<open>
  C3. The device has a photo URL and the snapshot operation returns. Then, whatever the
  counter was, the call returns the bytes the operation returned and leaves the counter
  at 0.
\<close>

theorem success_resets_counter:
  assumes "truthy (photo_url (intercom_device self))"
    and "async_get_snapshot ext = Inr snapshot_image"
  shows "outcome (async_camera_image hass ext self w h) = Inr (Some snapshot_image)
       \<and> failed_retrieval_counter (camera_after (async_camera_image hass ext self w h)) = 0"
  using assms by (simp add: async_camera_image_def result_defs)

theorem success_resets_counter_witness:
  "truthy (photo_url (intercom_device (example_camera 3)))
   \<and> async_get_snapshot snapshot_returns = Inr example_image
   \<and> outcome (async_camera_image (example_hass 5) snapshot_returns (example_camera 3) None None)
       = Inr (Some example_image)
   \<and> failed_retrieval_counter
       (camera_after (async_camera_image (example_hass 5) snapshot_returns (example_camera 3)
          None None)) = 0"
  using success_resets_counter
    [where self = "example_camera 3" and ext = snapshot_returns
       and snapshot_image = example_image and hass = "example_hass 5"
       and w = None and h = None]
  by (simp add: example_defs)

text \<open>
  C8. On a threshold trip whose refresh raises, the call handles nothing: the exception of
  the refresh is what the call raises to its caller.
\<close>

theorem refresh_failure_propagates:
  assumes "truthy (photo_url (intercom_device self))"
    and "async_get_snapshot ext = Inl (PikIntercomException msg)"
    and "retrieval_error_threshold hass self = Inr t"
    and "t \<le> failed_retrieval_counter self + 1"
    and "async_update_property_intercoms ext (property_id (intercom_device self)) = Inl e"
  shows "outcome (async_camera_image hass ext self w h) = Inl e"
  using assms by (simp add: async_camera_image_def result_defs Let_def)

theorem refresh_failure_propagates_witness:
  "truthy (photo_url (intercom_device (example_camera 4)))
   \<and> async_get_snapshot (snapshot_raises (Inl (PikIntercomException ''unauthorized'')))
       = Inl (PikIntercomException ''timeout'')
   \<and> retrieval_error_threshold (example_hass 5) (example_camera 4) = Inr 5
   \<and> 5 \<le> failed_retrieval_counter (example_camera 4) + 1
   \<and> async_update_property_intercoms (snapshot_raises (Inl (PikIntercomException ''unauthorized'')))
        (property_id (intercom_device (example_camera 4)))
       = Inl (PikIntercomException ''unauthorized'')
   \<and> outcome (async_camera_image (example_hass 5)
        (snapshot_raises (Inl (PikIntercomException ''unauthorized''))) (example_camera 4) None None)
       = Inl (PikIntercomException ''unauthorized'')"
  using refresh_failure_propagates
    [where self = "example_camera 4"
       and ext = "snapshot_raises (Inl (PikIntercomException ''unauthorized''))"
       and msg = "''timeout''" and hass = "example_hass 5" and t = 5
       and e = "PikIntercomException ''unauthorized''" and w = None and h = None]
  by (simp add: example_defs retrieval_error_threshold_def)

text \<open>
  C10. On a threshold trip whose refresh raises, the counter is assigned 0 before the
  refresh is awaited (the refresh is awaited once, after the assignment in the trace), the
  entity the raising call leaves has its counter at 0, and a failed fetch in the next call
  takes the counter to 1.
\<close>

theorem counter_reset_before_refresh:
  assumes "truthy (photo_url (intercom_device self))"
    and "async_get_snapshot ext = Inl (PikIntercomException msg)"
    and "retrieval_error_threshold hass self = Inr t"
    and "t \<le> failed_retrieval_counter self + 1"
    and "async_update_property_intercoms ext (property_id (intercom_device self)) = Inl e"
  shows "outcome (async_camera_image hass ext self w h) = Inl e
       \<and> failed_retrieval_counter (camera_after (async_camera_image hass ext self w h)) = 0
       \<and> precedes (Set_failed_retrieval_counter 0)
           (Await_update_property_intercoms (property_id (intercom_device self)))
           (trace (async_camera_image hass ext self w h))
       \<and> refresh_calls (trace (async_camera_image hass ext self w h)) =
           [property_id (intercom_device self)]
       \<and> (fetch_kind (camera_after (async_camera_image hass ext self w h)) c = Failed_fetch
            \<longrightarrow> failed_retrieval_counter
                  (camera_after (image_step (camera_after (async_camera_image hass ext self w h)) c)) = 1)"
proof -
  let ?r = "async_camera_image hass ext self w h"
  have r: "?r = (Inl e, self\<lparr>failed_retrieval_counter := 0\<rparr>,
      [Await_get_snapshot, Set_failed_retrieval_counter (failed_retrieval_counter self + 1),
       Set_failed_retrieval_counter 0,
       Log ERROR (entity_id self) (Retrieval_error_threshold_reached t),
       Await_update_property_intercoms (property_id (intercom_device self))])"
    using assms by (simp add: async_camera_image_def Let_def)
  have "failed_retrieval_counter (camera_after ?r) = 0"
    by (simp add: r result_defs)
  then have "fetch_kind (camera_after ?r) c = Failed_fetch
       \<longrightarrow> failed_retrieval_counter (camera_after (image_step (camera_after ?r) c)) = 1"
    by (simp add: step_counter)
  moreover have "precedes (Set_failed_retrieval_counter 0)
           (Await_update_property_intercoms (property_id (intercom_device self))) (trace ?r)"
    by (simp add: r result_defs precedes_def)
  moreover have "outcome ?r = Inl e" "failed_retrieval_counter (camera_after ?r) = 0"
    "refresh_calls (trace ?r) = [property_id (intercom_device self)]"
    by (simp_all add: r result_defs)
  ultimately show ?thesis by simp
qed

theorem counter_reset_before_refresh_witness:
  "truthy (photo_url (intercom_device (example_camera 4)))
   \<and> async_get_snapshot (snapshot_raises (Inl (OtherException ''connection reset'')))
       = Inl (PikIntercomException ''timeout'')
   \<and> retrieval_error_threshold (example_hass 5) (example_camera 4) = Inr 5
   \<and> 5 \<le> failed_retrieval_counter (example_camera 4) + 1
   \<and> async_update_property_intercoms (snapshot_raises (Inl (OtherException ''connection reset'')))
        (property_id (intercom_device (example_camera 4)))
       = Inl (OtherException ''connection reset'')
   \<and> outcome (async_camera_image (example_hass 5)
        (snapshot_raises (Inl (OtherException ''connection reset''))) (example_camera 4) None None)
       = Inl (OtherException ''connection reset'')
   \<and> failed_retrieval_counter (camera_after (async_camera_image (example_hass 5)
        (snapshot_raises (Inl (OtherException ''connection reset''))) (example_camera 4) None None))
       = 0
   \<and> fetch_kind (camera_after (async_camera_image (example_hass 5)
        (snapshot_raises (Inl (OtherException ''connection reset''))) (example_camera 4) None None))
        failing_call = Failed_fetch
   \<and> failed_retrieval_counter (camera_after (image_step (camera_after (async_camera_image (example_hass 5)
        (snapshot_raises (Inl (OtherException ''connection reset''))) (example_camera 4) None None))
        failing_call)) = 1"
  using counter_reset_before_refresh
    [where self = "example_camera 4"
       and ext = "snapshot_raises (Inl (OtherException ''connection reset''))"
       and msg = "''timeout''" and hass = "example_hass 5" and t = 5
       and e = "OtherException ''connection reset''" and w = None and h = None
       and c = failing_call]
  by (simp add: example_defs retrieval_error_threshold_def fetch_kind_def result_defs
        async_camera_image_def)

subsection \<open>Single calls without a photo URL\<close>

text \<open>
  C4. The device has neither a photo URL nor a stream URL (each \<^verbatim>\<open>None\<close> or empty).
  Then the call returns \<^verbatim>\<open>None\<close>, logs one warning, and awaits nothing: neither an
  operation of the API object nor the ffmpeg helper.
\<close>

theorem no_source_no_image:
  assumes "\<not> truthy (photo_url (intercom_device self))"
    and "\<not> truthy (stream_url (intercom_device self))"
  shows "outcome (async_camera_image hass ext self w h) = Inr None
       \<and> warnings (trace (async_camera_image hass ext self w h)) = [No_video_source_available]
       \<and> filter is_api_call (trace (async_camera_image hass ext self w h)) = []
       \<and> awaited (trace (async_camera_image hass ext self w h)) = []"
  using assms
  by (cases "stream_url (intercom_device self)")
     (auto simp: async_camera_image_def result_defs awaited_def split: list.splits)

theorem no_source_no_image_witness:
  "\<not> truthy (photo_url (intercom_device
        (init ''entry'' (example_device\<lparr>photo_url := None, stream_url := Some ''''\<rparr>))))
   \<and> \<not> truthy (stream_url (intercom_device
        (init ''entry'' (example_device\<lparr>photo_url := None, stream_url := Some ''''\<rparr>))))
   \<and> outcome (async_camera_image (example_hass 5) snapshot_returns
        (init ''entry'' (example_device\<lparr>photo_url := None, stream_url := Some ''''\<rparr>))
        None None) = Inr None
   \<and> warnings (trace (async_camera_image (example_hass 5) snapshot_returns
        (init ''entry'' (example_device\<lparr>photo_url := None, stream_url := Some ''''\<rparr>))
        None None)) = [No_video_source_available]
   \<and> filter is_api_call (trace (async_camera_image (example_hass 5) snapshot_returns
        (init ''entry'' (example_device\<lparr>photo_url := None, stream_url := Some ''''\<rparr>))
        None None)) = []"
  using no_source_no_image
    [where self = "init ''entry'' (example_device\<lparr>photo_url := None, stream_url := Some ''''\<rparr>)"
       and hass = "example_hass 5" and ext = snapshot_returns and w = None and h = None]
  by (simp add: example_defs)

text \<open>
  C5. The device has no photo URL and a non-empty stream URL. Then the call awaits the
  ffmpeg helper once, with that URL and the width and height it was given, awaits nothing
  else, and its result is the helper's: the bytes, \<^verbatim>\<open>None\<close>, or the helper's exception.
\<close>

theorem stream_fallback_delegates:
  assumes "\<not> truthy (photo_url (intercom_device self))"
    and "stream_url (intercom_device self) = Some url"
    and "url \<noteq> []"
  shows "outcome (async_camera_image hass ext self w h) = ffmpeg_async_get_image ext url w h
       \<and> awaited (trace (async_camera_image hass ext self w h)) = [Await_ffmpeg_get_image url w h]"
  using assms
  by (cases url)
     (auto simp: async_camera_image_def result_defs awaited_def Let_def
           split: sum.splits option.splits)

theorem stream_fallback_delegates_witness:
  "\<not> truthy (photo_url (intercom_device (init ''entry'' (example_device\<lparr>photo_url := None\<rparr>))))
   \<and> stream_url (intercom_device (init ''entry'' (example_device\<lparr>photo_url := None\<rparr>)))
       = Some ''rtsp://intercom.example/high''
   \<and> outcome (async_camera_image (example_hass 5) snapshot_returns
        (init ''entry'' (example_device\<lparr>photo_url := None\<rparr>)) (Some 640) (Some 480))
       = Inr (Some example_image)
   \<and> awaited (trace (async_camera_image (example_hass 5) snapshot_returns
        (init ''entry'' (example_device\<lparr>photo_url := None\<rparr>)) (Some 640) (Some 480)))
       = [Await_ffmpeg_get_image ''rtsp://intercom.example/high'' (Some 640) (Some 480)]"
  using stream_fallback_delegates
    [where self = "init ''entry'' (example_device\<lparr>photo_url := None\<rparr>)"
       and url = "''rtsp://intercom.example/high''"
       and hass = "example_hass 5" and ext = snapshot_returns and w = "Some 640" and h = "Some 480"]
  by (simp add: example_defs)

subsection \<open>The threshold\<close>

text \<open>
  C7. Where the configuration of the entry holds a threshold, the threshold the entity
  uses is the maximum of that value and 5; it is at least 5 and at least the configured
  value.
\<close>

theorem threshold_is_max:
  assumes "final_config hass = Some configs"
    and "configs (config_entry_id self) = Some config"
    and "config CONF_RETRIEVAL_ERROR_THRESHOLD = Some configured"
  shows "retrieval_error_threshold hass self = Inr (max configured 5)
       \<and> (\<exists>t. retrieval_error_threshold hass self = Inr t \<and> 5 \<le> t \<and> configured \<le> t)"
  using assms by (simp add: retrieval_error_threshold_def)

theorem threshold_is_max_witness:
  "final_config (example_hass 3) = Some [''entry'' \<mapsto> [CONF_RETRIEVAL_ERROR_THRESHOLD \<mapsto> 3]]
   \<and> [''entry'' \<mapsto> [CONF_RETRIEVAL_ERROR_THRESHOLD \<mapsto> (3::int)]] (config_entry_id (example_camera 0))
       = Some [CONF_RETRIEVAL_ERROR_THRESHOLD \<mapsto> 3]
   \<and> [CONF_RETRIEVAL_ERROR_THRESHOLD \<mapsto> (3::int)] CONF_RETRIEVAL_ERROR_THRESHOLD = Some 3
   \<and> retrieval_error_threshold (example_hass 3) (example_camera 0) = Inr 5"
  using threshold_is_max
    [where hass = "example_hass 3" and self = "example_camera 0"
       and configs = "[''entry'' \<mapsto> [CONF_RETRIEVAL_ERROR_THRESHOLD \<mapsto> 3]]"
       and config = "[CONF_RETRIEVAL_ERROR_THRESHOLD \<mapsto> 3]" and configured = 3]
  by (simp add: example_defs)

subsection \<open>Sequences of calls\<close>

text \<open>
  C2. Every call of the sequence finds a photo URL, a snapshot operation that raises
  \<^verbatim>\<open>PikIntercomException\<close> and the threshold \<open>t\<close>; the entity starts with its counter
  at 0 and the sequence has fewer than \<open>t\<close> calls. Then every call returns \<^verbatim>\<open>None\<close>
  (none raises), the counter after the first \<open>i\<close> calls is \<open>i\<close>, and after the last
  call it is the number of calls.
\<close>

theorem failures_absorbed:
  assumes "\<forall>c\<in>set cs. truthy (photo_url (call_device c))
                   \<and> is_PikIntercomException (async_get_snapshot (call_ext c))
                   \<and> retrieval_error_threshold (call_hass c) self = Inr t"
    and "failed_retrieval_counter self = 0"
    and "int (length cs) < t"
  shows "(\<forall>r\<in>set (image_calls self cs). outcome r = Inr None)
       \<and> (\<forall>i\<le>length cs. failed_retrieval_counter (cameras self cs ! i) = int i)
       \<and> failed_retrieval_counter (last (cameras self cs)) = int (length cs)"
  using failures_below_threshold [of cs self t] assms
  by (simp add: last_cameras)

theorem failures_absorbed_witness:
  "truthy (photo_url (call_device failing_call))
   \<and> is_PikIntercomException (async_get_snapshot (call_ext failing_call))
   \<and> retrieval_error_threshold (call_hass failing_call) (example_camera 0) = Inr 5
   \<and> failed_retrieval_counter (example_camera 0) = 0
   \<and> int (length [failing_call, failing_call, failing_call, failing_call]) < 5
   \<and> map outcome (image_calls (example_camera 0) [failing_call, failing_call, failing_call, failing_call])
       = [Inr None, Inr None, Inr None, Inr None]
   \<and> failed_retrieval_counter
        (last (cameras (example_camera 0) [failing_call, failing_call, failing_call, failing_call])) = 4"
  using failures_absorbed
    [where cs = "[failing_call, failing_call, failing_call, failing_call]"
       and self = "example_camera 0" and t = 5]
  by (simp add: example_defs retrieval_error_threshold_def)

text \<open>
  C9. In every sequence of calls the counter after a call is 0 when the call is a
  successful fetch or a threshold trip, one more than before when it is a failed fetch, and
  what it was before otherwise (no snapshot asked, or another exception); so over any
  stretch of calls without a successful fetch or a threshold trip the counter does not
  decrease. A failed fetch is one whose snapshot operation raises
  \<^verbatim>\<open>PikIntercomException\<close>.
\<close>

theorem counter_changes:
  assumes "i \<le> j" and "j \<le> length cs"
  shows "(\<forall>l<length cs.
            failed_retrieval_counter (cameras self cs ! Suc l) =
              (case fetch_kind (cameras self cs ! l) (cs ! l) of
                 Successful_fetch \<Rightarrow> 0
               | Threshold_trip \<Rightarrow> 0
               | Failed_fetch \<Rightarrow> failed_retrieval_counter (cameras self cs ! l) + 1
               | Other_exception \<Rightarrow> failed_retrieval_counter (cameras self cs ! l)
               | No_snapshot_request \<Rightarrow> failed_retrieval_counter (cameras self cs ! l)))
       \<and> ((\<forall>l. i \<le> l \<and> l < j \<longrightarrow> \<not> resets (fetch_kind (cameras self cs ! l) (cs ! l)))
            \<longrightarrow> failed_retrieval_counter (cameras self cs ! i)
                  \<le> failed_retrieval_counter (cameras self cs ! j))"
proof (intro conjI allI impI)
  fix l assume "l < length cs"
  then show "failed_retrieval_counter (cameras self cs ! Suc l) =
              (case fetch_kind (cameras self cs ! l) (cs ! l) of
                 Successful_fetch \<Rightarrow> 0
               | Threshold_trip \<Rightarrow> 0
               | Failed_fetch \<Rightarrow> failed_retrieval_counter (cameras self cs ! l) + 1
               | Other_exception \<Rightarrow> failed_retrieval_counter (cameras self cs ! l)
               | No_snapshot_request \<Rightarrow> failed_retrieval_counter (cameras self cs ! l))"
    by (simp add: cameras_Suc step_counter)
next
  assume "\<forall>l. i \<le> l \<and> l < j \<longrightarrow> \<not> resets (fetch_kind (cameras self cs ! l) (cs ! l))"
  with assms show "failed_retrieval_counter (cameras self cs ! i)
                  \<le> failed_retrieval_counter (cameras self cs ! j)"
    by (intro run_counter_mono)
qed

theorem counter_changes_witness:
  "(0::nat) \<le> 2 \<and> 2 \<le> length [failing_call, failing_call, succeeding_call, failing_call]
   \<and> \<not> resets (fetch_kind
         (cameras (example_camera 0) [failing_call, failing_call, succeeding_call, failing_call] ! 0)
         ([failing_call, failing_call, succeeding_call, failing_call] ! 0))
   \<and> \<not> resets (fetch_kind
         (cameras (example_camera 0) [failing_call, failing_call, succeeding_call, failing_call] ! 1)
         ([failing_call, failing_call, succeeding_call, failing_call] ! 1))
   \<and> map failed_retrieval_counter
        (cameras (example_camera 0) [failing_call, failing_call, succeeding_call, failing_call])
       = [0, 1, 2, 0, 1]"
  using counter_changes
    [where i = 0 and j = 2 and self = "example_camera 0"
       and cs = "[failing_call, failing_call, succeeding_call, failing_call]"]
  by (simp add: example_defs result_defs image_step_def async_camera_image_def
        retrieval_error_threshold_def fetch_kind_def)

subsection \<open>The list of all stream URLs\<close>

text \<open>
  C6. For a device with two sources of the same quality the list holds four entries: the
  keys view yields the quality once per item, and each time the comprehension adds both
  sources, so every source is listed twice.
\<close>

theorem all_stream_urls_two_sources:
  "device_state_attributes (init ''entry'' two_sources_device) =
     Inr \<lparr> attr_photo_url = Some ''https://intercom.example/photo.jpg'',
           attr_stream_url = Some ''rtsp://intercom.example/high'',
           all_stream_urls =
             [\<lparr>quality = ''high'', source = ''rtsp://intercom.example/a''\<rparr>,
              \<lparr>quality = ''high'', source = ''rtsp://intercom.example/b''\<rparr>,
              \<lparr>quality = ''high'', source = ''rtsp://intercom.example/a''\<rparr>,
              \<lparr>quality = ''high'', source = ''rtsp://intercom.example/b''\<rparr>],
           attr_face_detection = False \<rparr>"
  by (simp add: device_state_attributes_def two_sources_device_def example_device_def init_def
        keys_def getall_def)

end
